theory Spec2Isabelle
  imports Complex_Main "HOL-Library.Word"
begin

unbundle bit_operations_syntax

section \<open>JavaScript primitives used by pages/index.js\<close>

text \<open>
  Numbers. The masks and timestamps of the program are integer-valued JavaScript numbers;
  they are modelled as \<^typ>\<open>int\<close> (masks) and \<^typ>\<open>nat\<close> (epoch milliseconds), which is
  exact for the safe integers. The bitwise operators first convert their operands with
  ToInt32 (reduction modulo \<open>2^32\<close>, read as two's complement) and take a shift count
  modulo 32.
\<close>

definition toInt32 :: "int \<Rightarrow> 32 word" where
  "toInt32 k = word_of_int k"

definition js_shl :: "int \<Rightarrow> nat \<Rightarrow> int" where
  "js_shl a n = sint (push_bit (n mod 32) (toInt32 a))"

definition js_sar :: "int \<Rightarrow> nat \<Rightarrow> int" where
  "js_sar a n = sint (signed_drop_bit (n mod 32) (toInt32 a))"

definition js_and :: "int \<Rightarrow> int \<Rightarrow> int" where
  "js_and a b = sint (toInt32 a AND toInt32 b)"

definition js_or :: "int \<Rightarrow> int \<Rightarrow> int" where
  "js_or a b = sint (toInt32 a OR toInt32 b)"

definition js_not :: "int \<Rightarrow> int" where
  "js_not a = sint (NOT (toInt32 a))"

text \<open>
  \<open>Number.prototype.toString(radix)\<close> on an integer: the digits \<open>0\<close> to \<open>9\<close>
  (character codes from 48) and \<open>a\<close> to \<open>z\<close> (from 97), most significant first, a
  leading \<open>-\<close> for a negative number. \<open>String(i)\<close> is radix 10.
\<close>

definition digitChar :: "nat \<Rightarrow> char" where
  "digitChar d = char_of (if d < 10 then 48 + d else 87 + d)"

function natToString :: "nat \<Rightarrow> nat \<Rightarrow> string" where
  "natToString radix n =
     (if n < radix \<or> radix < 2 then [digitChar n]
      else natToString radix (n div radix) @ [digitChar (n mod radix)])"
  by pat_completeness auto
termination
  by (relation "measure (\<lambda>(radix, n). n)") auto

declare natToString.simps [simp del]

definition numToString :: "nat \<Rightarrow> int \<Rightarrow> string" where
  "numToString radix k =
     (if k < 0 then CHR ''-'' # natToString radix (nat (- k)) else natToString radix (nat k))"

text \<open>
  \<open>parseInt(s, 36)\<close>: leading white space is skipped, then an optional sign, then the
  longest prefix of base-36 digits (either case) is read; with no digit the result is NaN,
  here \<open>None\<close>. The result here is the integer that the digits denote. \<open>parseInt\<close>
  returns that integer as a Number, which is the same up to \<open>2^53\<close>; beyond it the
  platform returns a nearby double (or Infinity), so what is stated below about the value
  of a parse is stated for digits that denote at most \<open>2^53\<close>.
\<close>

definition digitVal :: "char \<Rightarrow> nat option" where
  "digitVal c =
     (let n = (of_char c :: nat) in
      if 48 \<le> n \<and> n \<le> 57 then Some (n - 48)
      else if 97 \<le> n \<and> n \<le> 122 then Some (n - 87)
      else if 65 \<le> n \<and> n \<le> 90 then Some (n - 55)
      else None)"

definition isDigit36 :: "char \<Rightarrow> bool" where
  "isDigit36 c = (digitVal c \<noteq> None)"

definition isStrWhiteSpace :: "char \<Rightarrow> bool" where
  "isStrWhiteSpace c = ((of_char c :: nat) \<in> {9, 10, 11, 12, 13, 32, 160})"

definition digitsValue :: "string \<Rightarrow> int" where
  "digitsValue ds =
     foldl (\<lambda>acc c. 36 * acc + (case digitVal c of Some v \<Rightarrow> int v | None \<Rightarrow> 0)) 0 ds"

definition parseInt36 :: "string \<Rightarrow> int option" where
  "parseInt36 s =
     (let s1 = dropWhile isStrWhiteSpace s;
          neg = (case s1 of c # _ \<Rightarrow> c = CHR ''-'' | [] \<Rightarrow> False);
          s2 = (case s1 of c # r \<Rightarrow> if c = CHR ''-'' \<or> c = CHR ''+'' then r else s1 | [] \<Rightarrow> s1);
          ds = takeWhile isDigit36 s2
      in if ds = [] then None
         else Some (if neg then - digitsValue ds else digitsValue ds))"

section \<open>The legacy wire format: base64UrlDecode\<close>

text \<open>
  \<open>atob\<close> is the forgiving Base64 decoder of the platform: ASCII white space is removed;
  when the length is a multiple of four, one or two trailing \<open>=\<close> are removed; a length
  of 1 modulo 4 or a character outside the alphabet is a failure (the exception that
  base64UrlDecode catches); otherwise every character contributes six bits and the
  incomplete last byte is dropped. The result is a binary string, here the list of its
  character codes.
\<close>

definition isAsciiWhitespace :: "char \<Rightarrow> bool" where
  "isAsciiWhitespace c = ((of_char c :: nat) \<in> {9, 10, 12, 13, 32})"

definition b64index :: "char \<Rightarrow> nat option" where
  "b64index c =
     (let n = (of_char c :: nat) in
      if 65 \<le> n \<and> n \<le> 90 then Some (n - 65)
      else if 97 \<le> n \<and> n \<le> 122 then Some (n - 71)
      else if 48 \<le> n \<and> n \<le> 57 then Some (n + 4)
      else if n = 43 then Some 62
      else if n = 47 then Some 63
      else None)"

definition stripPadding :: "string \<Rightarrow> string" where
  "stripPadding d =
     (if length d mod 4 = 0 then
        (case rev d of
           c1 # c2 # r \<Rightarrow>
             if c1 = CHR ''=''
             then (if c2 = CHR ''='' then rev r else rev (c2 # r))
             else d
         | _ \<Rightarrow> d)
      else d)"

fun sextetsToBytes :: "nat list \<Rightarrow> nat list" where
  "sextetsToBytes (a # b # c # d # rest) =
     (a * 4 + b div 16) # ((b mod 16) * 16 + c div 4) # ((c mod 4) * 64 + d)
       # sextetsToBytes rest"
| "sextetsToBytes [a, b, c] = [a * 4 + b div 16, (b mod 16) * 16 + c div 4]"
| "sextetsToBytes [a, b] = [a * 4 + b div 16]"
| "sextetsToBytes _ = []"

definition atob :: "string \<Rightarrow> nat list option" where
  "atob data =
     (let d1 = filter (\<lambda>c. \<not> isAsciiWhitespace c) data;
          d2 = stripPadding d1
      in if length d2 mod 4 = 1 then None
         else if list_ex (\<lambda>c. b64index c = None) d2 then None
         else Some (sextetsToBytes
                      (map (\<lambda>c. case b64index c of Some i \<Rightarrow> i | None \<Rightarrow> 0) d2)))"

text \<open>
  \<open>'%' + ('00' + ch.charCodeAt(0).toString(16)).slice(-2)\<close>: every byte of the binary
  string becomes a percent escape of two hexadecimal digits.
\<close>

definition slice_last2 :: "string \<Rightarrow> string" where
  "slice_last2 s = drop (length s - 2) s"

definition pctByte :: "nat \<Rightarrow> string" where
  "pctByte b = CHR ''%'' # slice_last2 (''00'' @ natToString 16 b)"

definition percentEncode :: "nat list \<Rightarrow> string" where
  "percentEncode bs = concat (map pctByte bs)"

text \<open>
  \<open>decodeURIComponent\<close>: a character other than \<open>%\<close> stands for itself; \<open>%XX\<close> is an
  octet. An octet below 128 is that character; otherwise its leading one bits give the
  length \<open>n\<close> of a UTF-8 sequence, \<open>n = 1\<close> or \<open>n > 4\<close> is a URIError, the next
  \<open>n - 1\<close> escapes must follow, and the octets must be the UTF-8 encoding of a code point
  (no overlong form, no surrogate, at most \<open>0x10FFFF\<close>). The result is the list of the
  decoded code points; \<open>None\<close> is the URIError.
\<close>

definition hexVal :: "char \<Rightarrow> nat option" where
  "hexVal c =
     (let n = (of_char c :: nat) in
      if 48 \<le> n \<and> n \<le> 57 then Some (n - 48)
      else if 97 \<le> n \<and> n \<le> 102 then Some (n - 87)
      else if 65 \<le> n \<and> n \<le> 70 then Some (n - 55)
      else None)"

definition hexOctet :: "char \<Rightarrow> char \<Rightarrow> nat option" where
  "hexOctet h1 h2 =
     (case hexVal h1 of None \<Rightarrow> None
      | Some a \<Rightarrow> (case hexVal h2 of None \<Rightarrow> None | Some b \<Rightarrow> Some (16 * a + b)))"

fun readOctets :: "nat \<Rightarrow> string \<Rightarrow> (nat list \<times> string) option" where
  "readOctets 0 s = Some ([], s)"
| "readOctets (Suc n) (p # h1 # h2 # s) =
     (if p = CHR ''%'' then
        (case hexOctet h1 h2 of None \<Rightarrow> None
         | Some b \<Rightarrow>
             (case readOctets n s of None \<Rightarrow> None
              | Some (bs, r) \<Rightarrow> Some (b # bs, r)))
      else None)"
| "readOctets (Suc n) _ = None"

definition leadingOnes :: "nat \<Rightarrow> nat" where
  "leadingOnes b =
     (if b < 128 then 0 else if b < 192 then 1 else if b < 224 then 2
      else if b < 240 then 3 else if b < 248 then 4 else 5)"

definition isContinuation :: "nat \<Rightarrow> bool" where
  "isContinuation b = (128 \<le> b \<and> b < 192)"

fun utf8CodePoint :: "nat list \<Rightarrow> nat option" where
  "utf8CodePoint [b0, b1] =
     (let v = (b0 - 192) * 64 + (b1 - 128)
      in if isContinuation b1 \<and> 128 \<le> v then Some v else None)"
| "utf8CodePoint [b0, b1, b2] =
     (let v = (b0 - 224) * 4096 + (b1 - 128) * 64 + (b2 - 128)
      in if isContinuation b1 \<and> isContinuation b2 \<and> 2048 \<le> v
            \<and> \<not> (55296 \<le> v \<and> v \<le> 57343)
         then Some v else None)"
| "utf8CodePoint [b0, b1, b2, b3] =
     (let v = (b0 - 240) * 262144 + (b1 - 128) * 4096 + (b2 - 128) * 64 + (b3 - 128)
      in if isContinuation b1 \<and> isContinuation b2 \<and> isContinuation b3
            \<and> 65536 \<le> v \<and> v \<le> 1114111
         then Some v else None)"
| "utf8CodePoint _ = None"

lemma readOctets_length: "readOctets n s = Some (bs, r) \<Longrightarrow> length r \<le> length s"
proof (induction n s arbitrary: bs r rule: readOctets.induct)
  case (1 s)
  then show ?case by simp
next
  case (2 n p h1 h2 s)
  then show ?case
    by (fastforce split: if_splits option.splits)
qed simp_all

function decodeURIComponent :: "string \<Rightarrow> nat list option" where
  "decodeURIComponent [] = Some []"
| "decodeURIComponent (c # cs) =
     (if c \<noteq> CHR ''%'' then
        (case decodeURIComponent cs of None \<Rightarrow> None | Some out \<Rightarrow> Some (of_char c # out))
      else
        (case cs of
           h1 # h2 # r \<Rightarrow>
             (case hexOctet h1 h2 of None \<Rightarrow> None
              | Some b \<Rightarrow>
                  if leadingOnes b = 0 then
                    (case decodeURIComponent r of None \<Rightarrow> None
                     | Some out \<Rightarrow> Some (b # out))
                  else if leadingOnes b = 1 \<or> 4 < leadingOnes b then None
                  else
                    (case readOctets (leadingOnes b - 1) r of None \<Rightarrow> None
                     | Some (bs, r') \<Rightarrow>
                         (case utf8CodePoint (b # bs) of None \<Rightarrow> None
                          | Some v \<Rightarrow>
                              (case decodeURIComponent r' of None \<Rightarrow> None
                               | Some out \<Rightarrow> Some (v # out)))))
         | _ \<Rightarrow> None))"
  by pat_completeness auto
termination
  by (relation "measure length") (auto dest: readOctets_length)

declare decodeURIComponent.simps(2) [simp del]

text \<open>
  \<open>while (s.length % 4) s += '='\<close>
\<close>

lemma pad_measure:
  "n mod 4 \<noteq> 0 \<Longrightarrow> (4 - Suc n mod 4) mod 4 < (4 - n mod 4) mod (4::nat)"
proof -
  assume a: "n mod 4 \<noteq> 0"
  define k where "k = n mod 4"
  have k: "k < 4" "k \<noteq> 0" using a by (simp_all add: k_def)
  have s: "Suc n mod 4 = (if Suc k = 4 then 0 else Suc k)"
    by (simp add: mod_Suc k_def)
  from k have "k = 1 \<or> k = 2 \<or> k = 3" by linarith
  then have "(4 - (if Suc k = 4 then 0 else Suc k)) mod 4 < (4 - k) mod 4"
    by (elim disjE) simp_all
  then show ?thesis by (simp only: s k_def)
qed

function padTo4 :: "string \<Rightarrow> string" where
  "padTo4 s = (if length s mod 4 \<noteq> 0 then padTo4 (s @ ''='') else s)"
  by pat_completeness auto
termination
proof (relation "measure (\<lambda>s. (4 - length s mod 4) mod 4)")
  show "wf (measure (\<lambda>s. (4 - length s mod 4) mod 4))" by simp
next
  fix s :: string
  assume "length s mod 4 \<noteq> 0"
  then show "(s @ ''='', s) \<in> measure (\<lambda>s. (4 - length s mod 4) mod 4)"
    using pad_measure [of "length s"] by simp
qed

declare padTo4.simps [simp del]

text \<open>
  base64UrlDecode: the whole body runs inside \<open>try\<close>, and every exception (from \<open>atob\<close>
  or from \<open>decodeURIComponent\<close>) becomes the result \<open>null\<close>, here \<open>None\<close>.
\<close>

definition toStandardBase64 :: "string \<Rightarrow> string" where
  "toStandardBase64 s =
     padTo4 (map (\<lambda>c. if c = CHR ''_'' then CHR ''/'' else c)
               (map (\<lambda>c. if c = CHR ''-'' then CHR ''+'' else c) s))"

definition base64UrlDecode :: "string \<Rightarrow> nat list option" where
  "base64UrlDecode s =
     (if s = [] then None
      else
        (case atob (toStandardBase64 s) of
           None \<Rightarrow> None
         | Some str \<Rightarrow> decodeURIComponent (percentEncode str)))"

section \<open>Data model\<close>

text \<open>
  The pool \<open>DEFAULT_THEMES\<close> is a constant of nine labels. \<open>createdAt\<close> is a count
  of epoch milliseconds (\<open>Date.now()\<close>), a natural number; \<open>None\<close> is \<open>undefined\<close>.

  \<open>decoded_state\<close> is what decodeState returns, seen through the three properties the
  program reads: \<open>mask\<close> (present when \<open>typeof decoded.mask === 'number'\<close>), \<open>items\<close>
  and \<open>meta\<close>. \<open>payload\<close> is the object \<open>{ mask, meta }\<close> that createInitialLink and
  drawOne build and hand to encodeState.
\<close>

definition DEFAULT_THEMES :: "string list" where
  "DEFAULT_THEMES =
     [''Basketball'', ''Baseball'', ''Swimming'', ''Golf'', ''Gym'',
      ''Badminton'', ''Cycling'', ''Soccer'', ''Fencing'']"

record state_meta =
  createdAt :: "nat option"

record theme_item =
  item_id :: string
  label :: string

record decoded_state =
  mask :: "int option"
  items :: "theme_item list option"
  meta :: "state_meta option"

record payload =
  pmask :: int
  pmeta :: "state_meta option"

section \<open>encodeState\<close>

text \<open>
  The argument has a numeric \<open>mask\<close>, so the test \<open>typeof obj?.mask === 'number'\<close>
  succeeds and the compact branch is the one taken; the Base64 JSON fallback is for
  objects without a numeric mask, which have no \<open>payload\<close> form.
  \<open>payloadCreatedAt\<close> is \<open>obj.meta?.createdAt\<close>; the test \<open>obj.meta?.createdAt ?\<close> is
  a truthiness test, so \<open>undefined\<close> and \<open>0\<close> both give the empty \<open>time\<close>.
\<close>

definition payloadCreatedAt :: "payload \<Rightarrow> nat option" where
  "payloadCreatedAt obj = (case pmeta obj of None \<Rightarrow> None | Some mt \<Rightarrow> createdAt mt)"

definition encodeState :: "payload \<Rightarrow> string" where
  "encodeState obj =
     (let maskStr = numToString 36 (pmask obj);
          time = (case payloadCreatedAt obj of
                    None \<Rightarrow> []
                  | Some c \<Rightarrow> if c = 0 then [] else natToString 36 (c div 1000))
      in CHR ''m'' # maskStr @ (if time \<noteq> [] then ''.t'' @ time else []))"


section \<open>decodeState\<close>

text \<open>
  The pattern \<open>/^m([0-9a-z]+)(?:\.t([0-9a-z]+))?$/i\<close>. Ignoring case without the
  \<open>u\<close> flag, the class \<open>[0-9a-z]\<close> matches exactly the ASCII digits and letters, and
  \<open>m\<close>, \<open>t\<close> match either case. As \<open>.\<close> is not in the class, the first group is
  the longest run of class characters after the \<open>m\<close>. The result is the pair of
  \<open>m[1]\<close> and \<open>m[2]\<close> (\<open>None\<close> when the optional group did not take part).
\<close>

definition isClassChar :: "char \<Rightarrow> bool" where
  "isClassChar c =
     (let n = (of_char c :: nat) in
      (48 \<le> n \<and> n \<le> 57) \<or> (97 \<le> n \<and> n \<le> 122) \<or> (65 \<le> n \<and> n \<le> 90))"

definition compactMatch :: "string \<Rightarrow> (string \<times> string option) option" where
  "compactMatch s =
     (case s of
        [] \<Rightarrow> None
      | c # cs \<Rightarrow>
          if c \<noteq> CHR ''m'' \<and> c \<noteq> CHR ''M'' then None
          else
            let m1 = takeWhile isClassChar cs; rest = dropWhile isClassChar cs
            in if m1 = [] then None
               else
                 (case rest of
                    [] \<Rightarrow> Some (m1, None)
                  | [_] \<Rightarrow> None
                  | dot # t # m2 \<Rightarrow>
                      if dot = CHR ''.'' \<and> (t = CHR ''t'' \<or> t = CHR ''T'')
                         \<and> m2 \<noteq> [] \<and> list_all isClassChar m2
                      then Some (m1, Some m2) else None))"

text \<open>
  The compact branch of decodeState, from the two groups. \<open>parseInt(m[1], 36) || 0\<close>
  replaces NaN by 0. \<open>parseInt(m[2], 36) * 1000\<close> is NaN when the parse fails; NaN is
  rendered as \<open>None\<close> here (encodeState treats both as absent).
\<close>

definition compactState :: "string \<Rightarrow> string option \<Rightarrow> decoded_state" where
  "compactState m1 m2 =
     (let mask = (case parseInt36 m1 of None \<Rightarrow> 0 | Some v \<Rightarrow> v);
          createdAt =
            (case m2 of
               None \<Rightarrow> None
             | Some t \<Rightarrow>
                 (case parseInt36 t of None \<Rightarrow> None | Some v \<Rightarrow> Some (nat v * 1000)));
          items =
            List.map_filter
              (\<lambda>(index, label).
                 if js_and (js_sar mask index) 1 \<noteq> 0
                 then Some \<lparr>item_id = natToString 10 index, label = label\<rparr>
                 else None)
              (enumerate 0 DEFAULT_THEMES)
      in \<lparr>mask = Some mask, items = Some items, meta = Some \<lparr>createdAt = createdAt\<rparr>\<rparr>)"

text \<open>
  \<open>JSON.parse\<close> is a parameter: it takes the decoded text (a list of code points) and
  either throws a SyntaxError or returns a value. A returned value that is \<open>null\<close> (or
  another falsy value, which every reader in the program treats as \<open>null\<close>) is
  \<open>Parsed None\<close>.
\<close>

datatype json_parse_result = SyntaxError | Parsed "decoded_state option"

definition legacyAttempt ::
  "(nat list \<Rightarrow> json_parse_result) \<Rightarrow> string \<Rightarrow> json_parse_result" where
  "legacyAttempt JSON_parse s =
     (case base64UrlDecode s of
        None \<Rightarrow> SyntaxError
      | Some maybeJson \<Rightarrow> if maybeJson = [] then SyntaxError else JSON_parse maybeJson)"

definition decodeState ::
  "(nat list \<Rightarrow> json_parse_result) \<Rightarrow> string \<Rightarrow> decoded_state option" where
  "decodeState JSON_parse s =
     (if s = [] then None
      else
        (case legacyAttempt JSON_parse s of
           Parsed v \<Rightarrow> v
         | SyntaxError \<Rightarrow>
             (case compactMatch s of
                None \<Rightarrow> None
              | Some (m1, m2) \<Rightarrow> Some (compactState m1 m2))))"

text \<open>
  A \<open>JSON.parse\<close> that throws on every text. It instantiates the parameter in closed
  statements about tokens on which \<open>JSON.parse\<close> is never reached.
\<close>

definition no_json :: "nat list \<Rightarrow> json_parse_result" where
  "no_json txt = SyntaxError"

section \<open>createInitialLink and drawOne\<close>


text \<open>
  The mask drawOne works on: \<open>decoded.mask\<close> when it is a number, otherwise the
  \<open>reduce\<close> over \<open>decoded.items\<close> (or over nine placeholders when there is no
  \<open>items\<close>), whose callback sees the position \<open>i\<close> in the list it runs over.
\<close>

definition legacyMask :: "decoded_state \<Rightarrow> int" where
  "legacyMask decoded =
     (let n = (case items decoded of Some its \<Rightarrow> length its | None \<Rightarrow> length DEFAULT_THEMES)
      in foldl
           (\<lambda>acc i.
              if (case items decoded of
                    None \<Rightarrow> False
                  | Some its \<Rightarrow>
                      list_ex (\<lambda>x. item_id x = natToString 10 i
                                  \<or> (i < length DEFAULT_THEMES \<and> label x = DEFAULT_THEMES ! i)) its)
              then js_or acc (js_shl 1 i) else acc)
           0 [0..<n])"

definition stateMask :: "decoded_state \<Rightarrow> int" where
  "stateMask decoded = (case mask decoded of Some m \<Rightarrow> m | None \<Rightarrow> legacyMask decoded)"

definition availableOf :: "int \<Rightarrow> nat list" where
  "availableOf m = filter (\<lambda>i. js_and (js_sar m i) 1 \<noteq> 0) [0..<length DEFAULT_THEMES]"

text \<open>
  drawOne, without the user interface: \<open>busy\<close> is the flag, \<open>r\<close> the value of
  \<open>Math.random()\<close> (in \<open>[0, 1)\<close>), \<open>now\<close> the value of \<open>Date.now()\<close>. The result is
  \<open>NoOp\<close> for the first \<open>return\<close>, \<open>Exhausted\<close> for the second, and otherwise the
  picked index, its label, the new state and its token. The product \<open>r * n\<close> is the
  exact one; the platform rounds it to a double, which can move its floor to the next
  position when \<open>r\<close> is within a rounding error of a multiple of \<open>1 / n\<close>, but
  never to \<open>n\<close>. What is stated below about a draw holds for whichever available
  index is picked; no general statement is made about which \<open>r\<close> picks which index.
\<close>

datatype draw_result = NoOp | Exhausted | Drawn nat string payload string

definition drawOne :: "bool \<Rightarrow> decoded_state option \<Rightarrow> real \<Rightarrow> nat \<Rightarrow> draw_result" where
  "drawOne busy decoded r now =
     (case decoded of
        None \<Rightarrow> NoOp
      | Some d \<Rightarrow>
          if busy then NoOp
          else
            let m = stateMask d; available = availableOf m
            in if length available = 0 then Exhausted
               else
                 let idx = available ! nat \<lfloor>r * real (length available)\<rfloor>;
                     pickLabel = DEFAULT_THEMES ! idx;
                     newMask = js_and m (js_not (js_shl 1 idx));
                     newState = \<lparr>pmask = newMask,
                                 pmeta = Some (case meta d of
                                                 Some mt \<Rightarrow> mt
                                               | None \<Rightarrow> \<lparr>createdAt = Some now\<rparr>)\<rparr>;
                     enc = encodeState newState
                 in Drawn idx pickLabel newState enc)"

definition popCount :: "int \<Rightarrow> nat" where
  "popCount m = length (filter (\<lambda>i. bit m i) [0..<32])"

text \<open>
  The language of the pattern \<open>/^m([0-9a-z]+)(?:\.t([0-9a-z]+))?$/i\<close>, read off the
  pattern itself: \<open>compactPattern s m1 m2\<close> holds when \<open>s\<close> is an \<open>m\<close> of either
  case, the non-empty run \<open>m1\<close> of class characters and, when \<open>m2\<close> is present, a dot,
  a \<open>t\<close> of either case and the non-empty run \<open>m2\<close> of class characters.
\<close>

definition compactPattern :: "string \<Rightarrow> string \<Rightarrow> string option \<Rightarrow> bool" where
  "compactPattern s m1 m2 =
     (m1 \<noteq> [] \<and> list_all isClassChar m1
      \<and> (case m2 of
            None \<Rightarrow> s = CHR ''m'' # m1 \<or> s = CHR ''M'' # m1
          | Some ts \<Rightarrow>
              ts \<noteq> [] \<and> list_all isClassChar ts
              \<and> (s = CHR ''m'' # m1 @ ''.t'' @ ts \<or> s = CHR ''m'' # m1 @ ''.T'' @ ts
                 \<or> s = CHR ''M'' # m1 @ ''.t'' @ ts \<or> s = CHR ''M'' # m1 @ ''.T'' @ ts)))"

text \<open>
  A \<open>JSON.parse\<close> that knows the single text \<open>1\<close> (the number 1, an object without
  \<open>mask\<close>, \<open>items\<close> or \<open>meta\<close> to its readers) and throws on every other text.
\<close>

definition json_number_only :: "nat list \<Rightarrow> json_parse_result" where
  "json_number_only txt =
     (if txt = [49] then Parsed (Some \<lparr>mask = None, items = None, meta = None\<rparr>)
      else SyntaxError)"

section \<open>Lemmas on the primitives\<close>









lemma not_class_dot: "\<not> isClassChar CHR ''.''"
  by (simp add: isClassChar_def)




















section \<open>Lemmas on encodeState and decodeState\<close>






section \<open>Lemmas on the masks and on drawOne\<close>

lemma toInt32_sint [simp]: "toInt32 (sint (w :: 32 word)) = w"
  by (simp add: toInt32_def)

lemma js_test_bit: "i < 32 \<Longrightarrow> (js_and (js_sar m i) 1 \<noteq> 0) = bit (toInt32 m) i"
proof -
  assume i: "i < 32"
  have one: "toInt32 1 = 1" by (simp add: toInt32_def)
  have "(js_and (js_sar m i) 1 \<noteq> 0) = (signed_drop_bit i (toInt32 m) AND 1 \<noteq> 0)"
    using i by (simp add: js_and_def js_sar_def one signed_eq_0_iff)
  also have "\<dots> = bit (signed_drop_bit i (toInt32 m)) 0"
    by (simp add: and_one_eq bit_0 mod_2_eq_odd)
  also have "\<dots> = bit (toInt32 m) i"
    using i by (simp add: bit_signed_drop_bit_iff)
  finally show ?thesis .
qed

lemma len_themes: "length DEFAULT_THEMES = 9"
  by (simp add: DEFAULT_THEMES_def)

lemma availableOf_eq: "availableOf m = filter (\<lambda>i. bit m i) [0..<length DEFAULT_THEMES]"
  unfolding availableOf_def
  by (rule filter_cong [OF refl])
     (simp add: js_test_bit len_themes toInt32_def bit_word_of_int_iff)

lemma availableOf_set: "set (availableOf m) = {i. i < 9 \<and> bit m i}"
  by (auto simp: availableOf_eq len_themes)

lemma small_bits:
  assumes "0 \<le> m" "m \<le> 511" "bit (m::int) n"
  shows "n < 9"
proof -
  have "take_bit 9 m = m" using assms(1,2) by (simp add: take_bit_int_eq_self)
  then have "bit (take_bit 9 m) n" using assms(3) by simp
  then show ?thesis by (simp add: bit_take_bit_iff)
qed

lemma available_empty_iff:
  assumes "0 \<le> m" "m \<le> 511"
  shows "availableOf m = [] \<longleftrightarrow> m = 0"
proof
  assume "availableOf m = []"
  then have "set (availableOf m) = {}" by simp
  then have "\<forall>n. \<not> bit m n"
    using small_bits [OF assms] by (auto simp: availableOf_set)
  then show "m = 0" by (simp add: bit_eq_iff)
next
  assume "m = 0"
  then have "set (availableOf m) = {}" by (simp add: availableOf_set)
  then show "availableOf m = []" by simp
qed

lemma newMask_word:
  assumes "idx < 32"
  shows "js_and m (js_not (js_shl 1 idx)) = sint (toInt32 m AND NOT (push_bit idx 1))"
proof -
  have one: "toInt32 1 = 1" by (simp add: toInt32_def)
  show ?thesis using assms by (simp add: js_and_def js_not_def js_shl_def one)
qed

lemma cleared_bits:
  "bit (and m (not (push_bit idx (1::int)))) n \<longleftrightarrow> bit m n \<and> n \<noteq> idx"
  by (auto simp: bit_simps)

lemma newMask_int:
  assumes "0 \<le> m" "m \<le> 511" "idx < 32"
  shows "js_and m (js_not (js_shl 1 idx)) = and m (not (push_bit idx 1))"
proof (rule bit_eqI)
  fix n
  define W where "W = toInt32 m AND NOT (push_bit idx 1)"
  have w: "bit W k \<longleftrightarrow> k < 32 \<and> bit m k \<and> k \<noteq> idx" for k
    unfolding W_def using assms(3)
    by (auto simp: toInt32_def bit_simps bit_word_of_int_iff)
  have e: "js_and m (js_not (js_shl 1 idx)) = sint W"
    by (simp only: newMask_word [OF assms(3)] W_def)
  have b31: "\<not> bit m 31" using small_bits [OF assms(1,2), of 31] by auto
  have bn: "bit m n \<Longrightarrow> n < 32" using small_bits [OF assms(1,2), of n] by auto
  have "bit (sint W) n \<longleftrightarrow> bit m n \<and> n \<noteq> idx"
    using b31 bn by (auto simp: bit_sint_iff w)
  then show "bit (js_and m (js_not (js_shl 1 idx))) n = bit (and m (not (push_bit idx 1))) n"
    by (simp only: e cleared_bits)
qed


lemma filter_removeAll:
  "filter (\<lambda>i. P i \<and> i \<noteq> x) xs = removeAll x (filter P xs)"
  by (induction xs) auto

lemma popCount_cleared:
  assumes "bit m idx" "idx < 32"
  shows "popCount (and m (not (push_bit idx 1))) < popCount m"
proof -
  have "filter (\<lambda>i. bit (and m (not (push_bit idx 1))) i) [0..<32]
        = filter (\<lambda>i. bit m i \<and> i \<noteq> idx) [0..<32]"
    by (rule filter_cong [OF refl]) (simp only: cleared_bits)
  also have "\<dots> = removeAll idx (filter (\<lambda>i. bit m i) [0..<32])"
    by (rule filter_removeAll)
  finally have "filter (\<lambda>i. bit (and m (not (push_bit idx 1))) i) [0..<32]
        = removeAll idx (filter (\<lambda>i. bit m i) [0..<32])" .
  moreover have "idx \<in> set (filter (\<lambda>i. bit m i) [0..<32])" using assms by simp
  ultimately show ?thesis
    unfolding popCount_def by (simp only: length_removeAll_less)
qed

lemma and_cleared_absorb: "and (and m (not (push_bit idx (1::int)))) m = and m (not (push_bit idx 1))"
  by (rule bit_eqI) (auto simp: bit_simps)

lemma pick_lt:
  assumes "0 \<le> r" "r < 1" "0 < n"
  shows "nat \<lfloor>r * real n\<rfloor> < n"
proof -
  have "r * real n < real n" using assms by simp
  then have "\<lfloor>r * real n\<rfloor> < int n" by (simp add: floor_less_iff)
  then show ?thesis using assms(3) by simp
qed

lemma drawOne_unfold:
  "drawOne False (Some d) r now =
     (if availableOf (stateMask d) = [] then Exhausted
      else Drawn (availableOf (stateMask d) ! nat \<lfloor>r * real (length (availableOf (stateMask d)))\<rfloor>)
             (DEFAULT_THEMES ! (availableOf (stateMask d) ! nat \<lfloor>r * real (length (availableOf (stateMask d)))\<rfloor>))
             \<lparr>pmask = js_and (stateMask d) (js_not (js_shl 1 (availableOf (stateMask d) ! nat \<lfloor>r * real (length (availableOf (stateMask d)))\<rfloor>))),
              pmeta = Some (case meta d of Some mt \<Rightarrow> mt | None \<Rightarrow> \<lparr>createdAt = Some now\<rparr>)\<rparr>
             (encodeState
               \<lparr>pmask = js_and (stateMask d) (js_not (js_shl 1 (availableOf (stateMask d) ! nat \<lfloor>r * real (length (availableOf (stateMask d)))\<rfloor>))),
                pmeta = Some (case meta d of Some mt \<Rightarrow> mt | None \<Rightarrow> \<lparr>createdAt = Some now\<rparr>)\<rparr>))"
  by (simp add: drawOne_def Let_def)

section \<open>The claims about the codec\<close>










section \<open>The claims about drawOne\<close>

lemma drawOne_Drawn_busy:
  "drawOne busy (Some d) r now = Drawn idx lbl ns enc \<Longrightarrow> \<not> busy"
  by (cases busy) (simp_all add: drawOne_def)

lemma drawOne_Drawn_fields:
  assumes "drawOne busy (Some d) r now = Drawn idx lbl ns enc"
  shows "pmask ns = js_and (stateMask d) (js_not (js_shl 1 idx))"
    and "pmeta ns = Some (case meta d of Some mt \<Rightarrow> mt | None \<Rightarrow> \<lparr>createdAt = Some now\<rparr>)"
    and "idx = availableOf (stateMask d) ! nat \<lfloor>r * real (length (availableOf (stateMask d)))\<rfloor>"
    and "availableOf (stateMask d) \<noteq> []"
    and "lbl = DEFAULT_THEMES ! idx"
    and "enc = encodeState ns"
proof -
  have b: "\<not> busy" using assms by (rule drawOne_Drawn_busy)
  have u: "drawOne False (Some d) r now = Drawn idx lbl ns enc" using assms b by simp
  show "availableOf (stateMask d) \<noteq> []"
    using u by (auto simp: drawOne_unfold split: if_splits)
  then have e: "Drawn (availableOf (stateMask d) ! nat \<lfloor>r * real (length (availableOf (stateMask d)))\<rfloor>)
             (DEFAULT_THEMES ! (availableOf (stateMask d) ! nat \<lfloor>r * real (length (availableOf (stateMask d)))\<rfloor>))
             \<lparr>pmask = js_and (stateMask d) (js_not (js_shl 1 (availableOf (stateMask d) ! nat \<lfloor>r * real (length (availableOf (stateMask d)))\<rfloor>))),
              pmeta = Some (case meta d of Some mt \<Rightarrow> mt | None \<Rightarrow> \<lparr>createdAt = Some now\<rparr>)\<rparr>
             (encodeState
               \<lparr>pmask = js_and (stateMask d) (js_not (js_shl 1 (availableOf (stateMask d) ! nat \<lfloor>r * real (length (availableOf (stateMask d)))\<rfloor>))),
                pmeta = Some (case meta d of Some mt \<Rightarrow> mt | None \<Rightarrow> \<lparr>createdAt = Some now\<rparr>)\<rparr>)
           = Drawn idx lbl ns enc"
    using u by (simp only: drawOne_unfold if_False)
  show "idx = availableOf (stateMask d) ! nat \<lfloor>r * real (length (availableOf (stateMask d)))\<rfloor>"
    using e by simp
  show "pmask ns = js_and (stateMask d) (js_not (js_shl 1 idx))" using e by auto
  show "pmeta ns = Some (case meta d of Some mt \<Rightarrow> mt | None \<Rightarrow> \<lparr>createdAt = Some now\<rparr>)"
    using e by auto
  show "lbl = DEFAULT_THEMES ! idx" using e by auto
  show "enc = encodeState ns" using e by auto
qed

lemma pick_available:
  assumes "0 \<le> r" "r < 1" "availableOf m \<noteq> []"
  shows "availableOf m ! nat \<lfloor>r * real (length (availableOf m))\<rfloor> < 9"
    and "bit m (availableOf m ! nat \<lfloor>r * real (length (availableOf m))\<rfloor>)"
proof -
  have "nat \<lfloor>r * real (length (availableOf m))\<rfloor> < length (availableOf m)"
    using assms by (intro pick_lt) simp_all
  then have "availableOf m ! nat \<lfloor>r * real (length (availableOf m))\<rfloor> \<in> set (availableOf m)"
    by (rule nth_mem)
  then show "availableOf m ! nat \<lfloor>r * real (length (availableOf m))\<rfloor> < 9"
    and "bit m (availableOf m ! nat \<lfloor>r * real (length (availableOf m))\<rfloor>)"
    by (simp_all add: availableOf_set)
qed

lemma draw_nonexhausted:
  assumes "0 \<le> stateMask d" "stateMask d \<le> 511" "0 \<le> r" "r < 1" "stateMask d \<noteq> 0"
  shows "\<exists>idx ns enc.
           drawOne False (Some d) r now = Drawn idx (DEFAULT_THEMES ! idx) ns enc
           \<and> idx < 9 \<and> bit (stateMask d) idx
           \<and> pmask ns = js_and (stateMask d) (js_not (js_shl 1 idx))
           \<and> pmask ns = and (stateMask d) (not (push_bit idx 1))
           \<and> popCount (pmask ns) < popCount (stateMask d)
           \<and> and (pmask ns) (stateMask d) = pmask ns"
proof -
  let ?m = "stateMask d"
  let ?idx = "availableOf ?m ! nat \<lfloor>r * real (length (availableOf ?m))\<rfloor>"
  have ne: "availableOf ?m \<noteq> []" using assms(1,2,5) by (simp add: available_empty_iff)
  have i9: "?idx < 9" and bi: "bit ?m ?idx" using pick_available [OF assms(3,4) ne] by simp_all
  have nm: "js_and ?m (js_not (js_shl 1 ?idx)) = and ?m (not (push_bit ?idx 1))"
    using assms(1,2) i9 by (intro newMask_int) simp_all
  have pc: "popCount (and ?m (not (push_bit ?idx 1))) < popCount ?m"
    using bi i9 by (intro popCount_cleared) simp_all
  have ab: "and (and ?m (not (push_bit ?idx 1))) ?m = and ?m (not (push_bit ?idx 1))"
    by (rule and_cleared_absorb)
  show ?thesis
    using ne i9 bi nm pc ab
    by (simp add: drawOne_unfold)
qed

lemma draw_exhausted:
  assumes "stateMask d = 0"
  shows "drawOne False (Some d) r now = Exhausted"
proof -
  have "availableOf 0 = []" by (simp add: available_empty_iff)
  then show ?thesis using assms by (simp add: drawOne_unfold)
qed

lemma availableOf_511: "availableOf 511 = [0, 1, 2, 3, 4, 5, 6, 7, 8]"
  by code_simp

lemma availableOf_1: "availableOf 1 = [0]"
  by code_simp

lemma draw_511_half:
  "drawOne False
     (Some \<lparr>mask = Some 511, items = None, meta = Some \<lparr>createdAt = Some 1234567\<rparr>\<rparr>) (1 / 2) 5000
   = Drawn 4 ''Gym'' \<lparr>pmask = 495, pmeta = Some \<lparr>createdAt = Some 1234567\<rparr>\<rparr> ''mdr.tya''"
  by (simp add: drawOne_def stateMask_def availableOf_511 DEFAULT_THEMES_def js_and_def
      js_not_def js_shl_def toInt32_def encodeState_def payloadCreatedAt_def numToString_def
      natToString.simps digitChar_def char_of_eq_iff)

text \<open>
  With bit 0 as the only set bit there is one available index, the product is
  \<open>r\<close> itself and its floor is 0: index 0 is picked for every \<open>r\<close> in \<open>[0, 1)\<close>.
\<close>

lemma draw_single:
  assumes "0 \<le> r" "r < 1" "stateMask d = 1"
  shows "\<exists>ns enc. drawOne False (Some d) r now = Drawn 0 ''Basketball'' ns enc \<and> pmask ns = 0"
proof -
  have "r * 1 < 1" using assms by simp
  then have f: "\<lfloor>r\<rfloor> = 0" using assms by (simp add: floor_eq_iff)
  have nm: "js_and 1 (js_not (js_shl 1 0)) = 0"
    by (simp add: js_and_def js_not_def js_shl_def toInt32_def)
  show ?thesis
    using assms(3) f nm by (simp add: drawOne_unfold availableOf_1 DEFAULT_THEMES_def)
qed

text \<open>
  C5. Whenever drawOne returns a new state, its \<open>meta\<close> is the \<open>meta\<close> object of the
  decoded state, unchanged (so \<open>createdAt\<close> is carried over, also when it is
  \<open>undefined\<close>), if the decoded state has one; when the decoded state has no \<open>meta\<close>
  object, the new state is stamped with the current time.
\<close>

theorem draw_carries_meta:
  assumes "drawOne busy (Some d) r now = Drawn idx lbl ns enc"
  shows "pmeta ns = Some (case meta d of Some mt \<Rightarrow> mt | None \<Rightarrow> \<lparr>createdAt = Some now\<rparr>)
         \<and> payloadCreatedAt ns
             = (case meta d of Some mt \<Rightarrow> createdAt mt | None \<Rightarrow> Some now)"
  using drawOne_Drawn_fields(2) [OF assms]
  by (simp add: payloadCreatedAt_def split: option.splits)

theorem draw_carries_meta_witness:
  "drawOne False
     (Some \<lparr>mask = Some 511, items = None, meta = Some \<lparr>createdAt = Some 1234567\<rparr>\<rparr>) (1 / 2) 5000
   = Drawn 4 ''Gym'' \<lparr>pmask = 495, pmeta = Some \<lparr>createdAt = Some 1234567\<rparr>\<rparr> ''mdr.tya''
   \<and> payloadCreatedAt \<lparr>pmask = 495, pmeta = Some \<lparr>createdAt = Some 1234567\<rparr>\<rparr> = Some 1234567"
  using draw_carries_meta [OF draw_511_half] draw_511_half by simp

text \<open>
  A decoded state without a \<open>meta\<close> object, hence without \<open>createdAt\<close>: the new state
  carries \<open>createdAt = 5000\<close>, the time of the draw.
\<close>

theorem draw_stamps_time_counterexample:
  "meta \<lparr>mask = Some 1, items = None, meta = None\<rparr> = None
   \<and> drawOne False (Some \<lparr>mask = Some 1, items = None, meta = None\<rparr>) 0 5000
       = Drawn 0 ''Basketball'' \<lparr>pmask = 0, pmeta = Some \<lparr>createdAt = Some 5000\<rparr>\<rparr> ''m0.t5''"
  by (simp add: drawOne_def stateMask_def availableOf_1 DEFAULT_THEMES_def js_and_def
      js_not_def js_shl_def toInt32_def encodeState_def payloadCreatedAt_def numToString_def
      natToString.simps digitChar_def char_of_eq_iff)

text \<open>
  C7. For a state whose mask is in \<open>[0, 2^9 - 1]\<close> and not 0, and a random number in
  \<open>[0, 1)\<close>, drawOne picks an index \<open>idx\<close> below 9 whose bit is set, with its label, and
  the new mask is \<open>mask & ~(1 << idx)\<close>: it has strictly fewer set bits, and
  \<open>next & mask = next\<close>. For the mask 0 drawOne returns the exhausted result.
\<close>

theorem draw_clears_one_bit:
  assumes "0 \<le> stateMask d" "stateMask d \<le> 511" "0 \<le> r" "r < 1"
  shows "(stateMask d \<noteq> 0 \<longrightarrow>
            (\<exists>idx ns enc.
               drawOne False (Some d) r now = Drawn idx (DEFAULT_THEMES ! idx) ns enc
               \<and> idx < 9 \<and> bit (stateMask d) idx
               \<and> pmask ns = js_and (stateMask d) (js_not (js_shl 1 idx))
               \<and> pmask ns = and (stateMask d) (not (push_bit idx 1))
               \<and> popCount (pmask ns) < popCount (stateMask d)
               \<and> and (pmask ns) (stateMask d) = pmask ns))
         \<and> (stateMask d = 0 \<longrightarrow> drawOne False (Some d) r now = Exhausted)"
  using draw_nonexhausted [OF assms] draw_exhausted by blast

theorem draw_clears_one_bit_witness:
  "(\<exists>idx ns enc.
      drawOne False (Some \<lparr>mask = Some 511, items = None, meta = None\<rparr>) (1 / 2) 5000
        = Drawn idx (DEFAULT_THEMES ! idx) ns enc
      \<and> idx < 9 \<and> bit (511 :: int) idx
      \<and> pmask ns = and 511 (not (push_bit idx 1))
      \<and> popCount (pmask ns) < popCount 511)
   \<and> drawOne False (Some \<lparr>mask = Some 0, items = None, meta = None\<rparr>) (1 / 2) 5000 = Exhausted"
proof -
  let ?d = "\<lparr>mask = Some 511, items = None, meta = None\<rparr>"
  let ?z = "\<lparr>mask = Some 0, items = None, meta = None\<rparr>"
  have d: "stateMask ?d = 511" and z: "stateMask ?z = 0" by (simp_all add: stateMask_def)
  have a: "0 \<le> stateMask ?d" "stateMask ?d \<le> 511" "0 \<le> stateMask ?z" "stateMask ?z \<le> 511"
    by (simp_all add: d z)
  have r: "(0::real) \<le> 1 / 2" "(1::real) / 2 < 1" by simp_all
  show ?thesis
    using draw_clears_one_bit [OF a(1,2) r, of 5000] draw_clears_one_bit [OF a(3,4) r, of 5000]
    unfolding d z by auto
qed

section \<open>The claims about decodeState\<close>

lemma isClassChar_imp:
  assumes "isClassChar c"
  shows "isDigit36 c" "\<not> isStrWhiteSpace c" "c \<noteq> CHR ''-''" "c \<noteq> CHR ''+''"
proof -
  define n where "n = (of_char c :: nat)"
  have r: "(48 \<le> n \<and> n \<le> 57) \<or> (97 \<le> n \<and> n \<le> 122) \<or> (65 \<le> n \<and> n \<le> 90)"
    using assms by (simp add: isClassChar_def n_def Let_def)
  show "isDigit36 c" using r by (auto simp: isDigit36_def digitVal_def n_def [symmetric] Let_def)
  show "\<not> isStrWhiteSpace c" using r by (auto simp: isStrWhiteSpace_def n_def [symmetric])
  show "c \<noteq> CHR ''-''" using r by (auto simp: n_def)
  show "c \<noteq> CHR ''+''" using r by (auto simp: n_def)
qed

lemma compactMatch_complete:
  assumes "compactPattern s m1 m2"
  shows "compactMatch s = Some (m1, m2)"
proof -
  have ne: "m1 \<noteq> []" and cl: "\<forall>c\<in>set m1. isClassChar c"
    using assms by (simp_all add: compactPattern_def list_all_iff)
  show ?thesis
  proof (cases m2)
    case None
    have tw: "takeWhile isClassChar m1 = m1" using cl by (simp add: takeWhile_eq_all_conv)
    have dw: "dropWhile isClassChar m1 = []" using cl by simp
    from assms None have "s = CHR ''m'' # m1 \<or> s = CHR ''M'' # m1"
      by (simp add: compactPattern_def)
    then show ?thesis using ne None by (auto simp: compactMatch_def tw dw)
  next
    case (Some ts)
    have tw: "takeWhile isClassChar (m1 @ CHR ''.'' # r) = m1" for r
      using cl by (simp add: takeWhile_append2 not_class_dot)
    have dw: "dropWhile isClassChar (m1 @ CHR ''.'' # r) = CHR ''.'' # r" for r
      using cl by (simp add: dropWhile_append2 not_class_dot)
    from assms Some have t: "ts \<noteq> []" "list_all isClassChar ts"
      and "s = CHR ''m'' # m1 @ ''.t'' @ ts \<or> s = CHR ''m'' # m1 @ ''.T'' @ ts
           \<or> s = CHR ''M'' # m1 @ ''.t'' @ ts \<or> s = CHR ''M'' # m1 @ ''.T'' @ ts"
      by (simp_all add: compactPattern_def)
    then show ?thesis using ne Some by (auto simp: compactMatch_def tw dw)
  qed
qed

lemma compactMatch_Cons:
  "compactMatch (c # cs) =
     (if c \<noteq> CHR ''m'' \<and> c \<noteq> CHR ''M'' then None
      else if takeWhile isClassChar cs = [] then None
      else (case dropWhile isClassChar cs of
              [] \<Rightarrow> Some (takeWhile isClassChar cs, None)
            | [_] \<Rightarrow> None
            | dot # t # m2 \<Rightarrow>
                if dot = CHR ''.'' \<and> (t = CHR ''t'' \<or> t = CHR ''T'')
                   \<and> m2 \<noteq> [] \<and> list_all isClassChar m2
                then Some (takeWhile isClassChar cs, Some m2) else None))"
  by (simp add: compactMatch_def Let_def)

lemma compactMatch_sound:
  assumes "compactMatch s = Some (m1, m2)"
  shows "compactPattern s m1 m2"
proof (cases s)
  case Nil
  with assms show ?thesis by (simp add: compactMatch_def)
next
  case (Cons c cs)
  have c: "c = CHR ''m'' \<or> c = CHR ''M''"
    using assms Cons by (auto simp: compactMatch_def split: if_splits)
  have m1: "m1 = takeWhile isClassChar cs" and ne: "m1 \<noteq> []"
    using assms Cons c
    by (auto simp: compactMatch_def Let_def split: if_splits list.splits)
  have cl: "list_all isClassChar m1"
    unfolding m1 list_all_iff by (auto dest: set_takeWhileD)
  have cs: "cs = m1 @ dropWhile isClassChar cs" by (simp add: m1)
  show ?thesis
  proof (cases "dropWhile isClassChar cs")
    case Nil
    have "compactMatch s = Some (m1, None)"
      using c ne unfolding \<open>s = c # cs\<close> compactMatch_Cons Nil m1 by auto
    then have "m2 = None" using assms by simp
    moreover have "cs = m1" using cs Nil by simp
    ultimately show ?thesis using c ne cl Cons by (auto simp: compactPattern_def)
  next
    case (Cons a r)
    note r1 = this
    show ?thesis
    proof (cases r)
      case Nil
      have "compactMatch s = None"
        using c ne unfolding \<open>s = c # cs\<close> compactMatch_Cons r1 Nil m1 by auto
      with assms show ?thesis by simp
    next
      case (Cons t ts)
      with r1 have dw: "dropWhile isClassChar cs = a # t # ts" by simp
      have "compactMatch s =
              (if a = CHR ''.'' \<and> (t = CHR ''t'' \<or> t = CHR ''T'')
                   \<and> ts \<noteq> [] \<and> list_all isClassChar ts
               then Some (m1, Some ts) else None)"
        using c ne unfolding \<open>s = c # cs\<close> compactMatch_Cons dw m1 by auto
      then have g: "a = CHR ''.'' \<and> (t = CHR ''t'' \<or> t = CHR ''T'') \<and> ts \<noteq> []
               \<and> list_all isClassChar ts \<and> m2 = Some ts"
        using assms by (auto split: if_splits)
      have "s = c # m1 @ a # t # ts" using \<open>s = c # cs\<close> cs dw by simp
      then show ?thesis using g c ne cl by (auto simp: compactPattern_def)
    qed
  qed
qed

lemma compactMatch_iff: "compactMatch s = Some (m1, m2) \<longleftrightarrow> compactPattern s m1 m2"
  using compactMatch_sound compactMatch_complete by blast


lemma parseInt36_class:
  assumes "ds \<noteq> []" "list_all isClassChar ds"
  shows "parseInt36 ds = Some (digitsValue ds)"
proof -
  obtain c cs where s: "ds = c # cs" using assms(1) by (cases ds) auto
  have c: "isClassChar c" using assms(2) s by simp
  have dw: "dropWhile isStrWhiteSpace ds = ds"
    using c s by (simp add: isClassChar_imp)
  have tw: "takeWhile isDigit36 ds = ds"
    using assms(2) by (simp add: isClassChar_imp takeWhile_eq_all_conv list_all_iff)
  have neg: "(case ds of c # _ \<Rightarrow> c = CHR ''-'' | [] \<Rightarrow> False) = False"
    using c by (simp add: s isClassChar_imp)
  have s2: "(case ds of c # r \<Rightarrow> if c = CHR ''-'' \<or> c = CHR ''+'' then r else ds | [] \<Rightarrow> ds) = ds"
    using c by (simp add: s isClassChar_imp)
  show ?thesis
    by (simp only: parseInt36_def Let_def dw neg s2 tw) (simp add: assms(1))
qed


lemma compact_time_parses:
  assumes "compactMatch s = Some (m1, Some t)"
  shows "parseInt36 t = Some (digitsValue t)"
proof -
  have "compactPattern s m1 (Some t)" using assms by (rule compactMatch_sound)
  then have "t \<noteq> []" "list_all isClassChar t" by (simp_all add: compactPattern_def)
  then show ?thesis by (rule parseInt36_class)
qed


lemma legacyAttempt_no_json: "legacyAttempt no_json s = SyntaxError"
  by (simp add: legacyAttempt_def no_json_def split: option.splits)

lemma decode_compact_branch:
  assumes "legacyAttempt JSON_parse s = SyntaxError" "compactMatch s = Some (m1, m2)"
  shows "decodeState JSON_parse s = Some (compactState m1 m2)"
proof -
  have "s \<noteq> []" using assms(2) by (auto simp: compactMatch_def)
  then show ?thesis using assms by (simp add: decodeState_def)
qed









lemma legacyAttempt_fails_iff:
  "legacyAttempt JSON_parse s = SyntaxError
   \<longleftrightarrow> (case base64UrlDecode s of
          None \<Rightarrow> True
        | Some txt \<Rightarrow> txt = [] \<or> JSON_parse txt = SyntaxError)"
  by (simp add: legacyAttempt_def split: option.splits)

lemma unknown_token_legacy: "base64UrlDecode ''not-a-valid-token!!'' = None"
  by code_simp

lemma unknown_token_compact: "compactMatch ''not-a-valid-token!!'' = None"
  by code_simp

lemma unknown_token: "decodeState JSON_parse ''not-a-valid-token!!'' = None"
  by (simp add: decodeState_def legacyAttempt_def unknown_token_legacy unknown_token_compact)

text \<open>
  C6. decodeState is total, with every exception of the source a value: the empty
  string gives \<open>null\<close>; when the legacy attempt returns a value (Base64, UTF-8 and
  \<open>JSON.parse\<close> all succeed on a non-empty text), that value is the result, whether or
  not the token also has the compact form; the legacy attempt fails exactly when
  \<open>atob\<close> or \<open>decodeURIComponent\<close> throws, the decoded text is empty, or
  \<open>JSON.parse\<close> throws; after a failed attempt the result is the compact state when the
  token is in the language of \<open>^m([0-9a-z]+)(\.t([0-9a-z]+))?$\<close> ignoring case, which
  is what the matcher decides, and \<open>null\<close> otherwise. The token
  \<open>not-a-valid-token!!\<close> gives \<open>null\<close>.
\<close>

theorem decode_total_and_ordered:
  "decodeState JSON_parse [] = None
   \<and> (s \<noteq> [] \<and> legacyAttempt JSON_parse s = Parsed v \<longrightarrow> decodeState JSON_parse s = v)
   \<and> (legacyAttempt JSON_parse s = SyntaxError
        \<longleftrightarrow> (case base64UrlDecode s of
               None \<Rightarrow> True
             | Some txt \<Rightarrow> txt = [] \<or> JSON_parse txt = SyntaxError))
   \<and> (compactMatch s = Some (m1, m2) \<longleftrightarrow> compactPattern s m1 m2)
   \<and> (legacyAttempt JSON_parse s = SyntaxError \<and> compactPattern s m1 m2
        \<longrightarrow> decodeState JSON_parse s = Some (compactState m1 m2))
   \<and> (legacyAttempt JSON_parse s = SyntaxError \<and> compactMatch s = None
        \<longrightarrow> decodeState JSON_parse s = None)
   \<and> decodeState JSON_parse ''not-a-valid-token!!'' = None"
proof -
  have a: "decodeState JSON_parse [] = None" by (simp add: decodeState_def)
  have b: "decodeState JSON_parse s = v" if "s \<noteq> []" "legacyAttempt JSON_parse s = Parsed v"
    using that by (simp add: decodeState_def)
  have c: "decodeState JSON_parse s = Some (compactState m1 m2)"
    if "legacyAttempt JSON_parse s = SyntaxError" "compactPattern s m1 m2"
    using that decode_compact_branch compactMatch_complete by blast
  have d: "decodeState JSON_parse s = None"
    if "legacyAttempt JSON_parse s = SyntaxError" "compactMatch s = None"
    using that by (simp add: decodeState_def)
  show ?thesis
    using a b c d legacyAttempt_fails_iff [of JSON_parse s] compactMatch_iff [of s m1 m2]
      unknown_token [of JSON_parse]
    by blast
qed

theorem decode_total_and_ordered_witness:
  "compactPattern ''MQ'' ''Q'' None
   \<and> legacyAttempt json_number_only ''MQ''
       = Parsed (Some \<lparr>mask = None, items = None, meta = None\<rparr>)
   \<and> decodeState json_number_only ''MQ'' = Some \<lparr>mask = None, items = None, meta = None\<rparr>
   \<and> compactPattern ''me7.t5'' ''e7'' (Some ''5'')
   \<and> legacyAttempt no_json ''me7.t5'' = SyntaxError
   \<and> decodeState no_json ''me7.t5'' = Some (compactState ''e7'' (Some ''5''))
   \<and> compactMatch ''not-a-valid-token!!'' = None
   \<and> decodeState no_json ''not-a-valid-token!!'' = None"
proof -
  have p1: "compactPattern ''MQ'' ''Q'' None"
    by (simp add: compactPattern_def isClassChar_def)
  have b: "base64UrlDecode ''MQ'' = Some [49]" by code_simp
  have l1: "legacyAttempt json_number_only ''MQ''
            = Parsed (Some \<lparr>mask = None, items = None, meta = None\<rparr>)"
    by (simp add: legacyAttempt_def b json_number_only_def)
  have p2: "compactPattern ''me7.t5'' ''e7'' (Some ''5'')"
    by (simp add: compactPattern_def isClassChar_def)
  have l2: "legacyAttempt no_json ''me7.t5'' = SyntaxError" by (rule legacyAttempt_no_json)
  have l3: "legacyAttempt no_json ''not-a-valid-token!!'' = SyntaxError"
    by (rule legacyAttempt_no_json)
  show ?thesis
    using decode_total_and_ordered
            [of json_number_only "''MQ''" "Some \<lparr>mask = None, items = None, meta = None\<rparr>"
                "''Q''" None]
          decode_total_and_ordered [of no_json "''me7.t5''" None "''e7''" "Some ''5''"]
          decode_total_and_ordered [of no_json "''not-a-valid-token!!''" None "[]" None]
          p1 l1 p2 l2 l3 unknown_token_compact
    by simp
qed

lemma legacy_items_payload_mask:
  "stateMask \<lparr>mask = None,
              items = Some [\<lparr>item_id = ''2'', label = ''Swimming''\<rparr>,
                            \<lparr>item_id = ''5'', label = ''Badminton''\<rparr>],
              meta = Some \<lparr>createdAt = None\<rparr>\<rparr> = 0"
  by code_simp

lemma availableOf_0: "availableOf 0 = []"
  by code_simp

text \<open>
  C2. The legacy token below is the URL-safe Base64 form of the JSON document
  \<open>{"items":[{"id":"2","label":"Swimming"},{"id":"5","label":"Badminton"}],"meta":{}}\<close>,
  which lists exactly the pool items 2 and 5. On the object that \<open>JSON.parse\<close> returns
  for it, the mask that drawOne reconstructs is 0 and the draw is the exhausted return,
  where the bitwise OR of \<open>1 << 2\<close> and \<open>1 << 5\<close> is 36: the \<open>reduce\<close> runs over the
  two positions of \<open>items\<close>, so only the pool indices 0 and 1 are looked for.
\<close>

theorem legacy_mask_reconstruction:
  \<open>base64UrlDecode
     ''eyJpdGVtcyI6W3siaWQiOiIyIiwibGFiZWwiOiJTd2ltbWluZyJ9LHsiaWQiOiI1IiwibGFiZWwiOiJCYWRtaW50b24ifV0sIm1ldGEiOnt9fQ''
     = Some (map of_char
         ''{"items":[{"id":"2","label":"Swimming"},{"id":"5","label":"Badminton"}],"meta":{}}'')
   \<and> stateMask \<lparr>mask = None,
                 items = Some [\<lparr>item_id = ''2'', label = ''Swimming''\<rparr>,
                               \<lparr>item_id = ''5'', label = ''Badminton''\<rparr>],
                 meta = Some \<lparr>createdAt = None\<rparr>\<rparr> = 0
   \<and> js_or (js_shl 1 2) (js_shl 1 5) = 36
   \<and> drawOne False
         (Some \<lparr>mask = None,
                items = Some [\<lparr>item_id = ''2'', label = ''Swimming''\<rparr>,
                              \<lparr>item_id = ''5'', label = ''Badminton''\<rparr>],
                meta = Some \<lparr>createdAt = None\<rparr>\<rparr>) (1 / 2) 5000 = Exhausted\<close>
proof -
  have a: \<open>base64UrlDecode
     ''eyJpdGVtcyI6W3siaWQiOiIyIiwibGFiZWwiOiJTd2ltbWluZyJ9LHsiaWQiOiI1IiwibGFiZWwiOiJCYWRtaW50b24ifV0sIm1ldGEiOnt9fQ''
     = Some (map of_char
         ''{"items":[{"id":"2","label":"Swimming"},{"id":"5","label":"Badminton"}],"meta":{}}'')\<close>
    by code_simp
  have b: "js_or (js_shl 1 2) (js_shl 1 5) = 36" by code_simp
  show ?thesis
    using a b legacy_items_payload_mask
    by (simp add: drawOne_unfold availableOf_0)
qed

end
